theory Spec2Isabelle
  imports Complex_Main "HOL-Library.Monad_Syntax"
begin

section \<open>Finance tracker: the data model of \<open>src/pages/Index.tsx\<close>\<close>

text \<open>
  The page component keeps three collections in component state (transactions, payments,
  shifts) and derives figures from them on every render. The model below follows the
  second, complete revision of the component (the one with forms, schemas and handlers).

  Conventions of the embedding:
  \<^item> a TypeScript \<open>number\<close> holding money, hours or a rate is the rational number
    it denotes (\<open>rat\<close>): fractions such as one half are values of the type. The
    totals of the transactions and the bounds of the schemas are computed on these
    rationals exactly; the salary figures, where the order of the roundings shows, round
    the result of every arithmetic operation to a double;
  \<^item> a JavaScript \<open>Date\<close> is its time value, the number of milliseconds since
    1970-01-01T00:00:00Z, an \<open>int\<close>; calendar readings are taken in UTC;
  \<^item> an optional field (\<open>bonus?: number\<close>) is an \<open>option\<close>;
  \<^item> user-visible Cyrillic labels are transliterated, no computation inspects them.
\<close>

type_synonym number = rat
type_synonym date = int

datatype kind = Income | Expense
datatype status = Pending | Paid | Overdue
datatype paymentType = Recurring | Credit | Debt

record transaction =
  t_id :: string
  t_type :: kind
  t_category :: string
  t_amount :: number
  t_description :: string
  t_date :: date

record payment =
  p_id :: string
  p_name :: string
  p_amount :: number
  p_dueDate :: date
  p_status :: status
  p_type :: paymentType

record shift =
  s_id :: string
  s_date :: date
  s_hours :: number
  s_hourlyRate :: number
  s_bonus :: "number option"
  s_deductions :: "number option"

subsection \<open>The JavaScript \<open>Date\<close> operations the component uses\<close>

definition msPerDay :: int where
  "msPerDay = 86400000"

text \<open>
  \<open>new Date('YYYY-MM-DD')\<close>: a date-only ISO string is midnight UTC of that civil day.
  The day number is counted with the usual era arithmetic of the proleptic Gregorian
  calendar (years start in March so that the leap day comes last).
\<close>

definition daysFromCivil :: "int \<Rightarrow> int \<Rightarrow> int \<Rightarrow> int" where
  "daysFromCivil y m d =
     (let y' = (if m \<le> 2 then y - 1 else y);
          era = y' div 400;
          yoe = y' - era * 400;
          mp = (if m > 2 then m - 3 else m + 9);
          doy = (153 * mp + 2) div 5 + d - 1;
          doe = yoe * 365 + yoe div 4 - yoe div 100 + doy
      in era * 146097 + doe - 719468)"

definition newDate :: "int \<Rightarrow> int \<Rightarrow> int \<Rightarrow> date" where
  "newDate y m d = daysFromCivil y m d * msPerDay"

text \<open>\<open>Date.prototype.getDate()\<close>: the day of the month, 1 to 31, of a time value.\<close>

definition getDate :: "date \<Rightarrow> int" where
  "getDate t =
     (let z = t div msPerDay + 719468;
          era = z div 146097;
          doe = z - era * 146097;
          yoe = (doe - doe div 1460 + doe div 36524 - doe div 146096) div 365;
          doy = doe - (365 * yoe + yoe div 4 - yoe div 100);
          mp = (5 * doy + 2) div 153
      in doy - (153 * mp + 2) div 5 + 1)"

text \<open>
  \<open>differenceInDays(left, right)\<close> of date-fns: the number of full days between the two
  instants, rounded towards zero (so it is 0 for any two instants less than 24 hours
  apart, whichever comes first), in a time zone whose clock does not change.
\<close>

definition differenceInDays :: "date \<Rightarrow> date \<Rightarrow> int" where
  "differenceInDays dateLeft dateRight =
     (if dateRight \<le> dateLeft then (dateLeft - dateRight) div msPerDay
      else - ((dateRight - dateLeft) div msPerDay))"

subsection \<open>Aggregates computed on every render\<close>

text \<open>
  \<open>transactions.filter(t => t.type === 'income').reduce((sum, t) => sum + t.amount, 0)\<close>
  and its twin for expenses; \<open>reduce\<close> is a left fold from 0.
\<close>

definition totalIncome :: "transaction list \<Rightarrow> number" where
  "totalIncome transactions =
     foldl (\<lambda>sum t. sum + t_amount t) 0 (filter (\<lambda>t. t_type t = Income) transactions)"

definition totalExpenses :: "transaction list \<Rightarrow> number" where
  "totalExpenses transactions =
     foldl (\<lambda>sum t. sum + t_amount t) 0 (filter (\<lambda>t. t_type t = Expense) transactions)"

definition balance :: "transaction list \<Rightarrow> number" where
  "balance transactions = totalIncome transactions - totalExpenses transactions"

text \<open>
  The specification's \<open>totalByKind\<close>, written from its words: the sum of the amounts of
  the transactions whose type is the given kind.
\<close>

definition totalByKind :: "transaction list \<Rightarrow> kind \<Rightarrow> number" where
  "totalByKind transactions k =
     sum_list (map t_amount (filter (\<lambda>t. t_type t = k) transactions))"

subsection \<open>Salary periods\<close>

text \<open>
  \<open>shifts.filter(s => s.date.getDate() >= 30 || s.date.getDate() <= 14)\<close> and
  \<open>shifts.filter(s => s.date.getDate() >= 15 && s.date.getDate() <= 29)\<close>.
\<close>

definition salaryPeriod1 :: "shift list \<Rightarrow> shift list" where
  "salaryPeriod1 shifts =
     filter (\<lambda>s. getDate (s_date s) \<ge> 30 \<or> getDate (s_date s) \<le> 14) shifts"

definition salaryPeriod2 :: "shift list \<Rightarrow> shift list" where
  "salaryPeriod2 shifts =
     filter (\<lambda>s. getDate (s_date s) \<ge> 15 \<and> getDate (s_date s) \<le> 29) shifts"

text \<open>
  \<open>x || 0\<close> on an optional number: \<open>undefined\<close> and \<open>0\<close> are both falsy and give 0.
\<close>

definition orZero :: "number option \<Rightarrow> number" where
  "orZero x = (case x of None \<Rightarrow> 0 | Some v \<Rightarrow> (if v = 0 then 0 else v))"

text \<open>\<open>x ?? 0\<close>, the default the specification writes: only an absent value gives 0.\<close>

definition nullishZero :: "number option \<Rightarrow> number" where
  "nullishZero x = (case x of None \<Rightarrow> 0 | Some v \<Rightarrow> v)"

subsection \<open>Double arithmetic and the salary figures\<close>

text \<open>
  JavaScript numbers are IEEE 754 doubles. A finite double is a rational number, and the
  result of \<open>+\<close>, \<open>-\<close> or \<open>*\<close> on finite doubles is the exact result rounded to
  the nearest double, a tie going to the even significand. \<open>roundToDouble\<close> is this
  rounding with 53 significant bits and exponents down to that of the smallest
  subnormal, \<open>2 ^ -1074\<close>.

  \<open>ilog2 n\<close> is the position of the leading bit of a positive integer,
  \<open>exponentOf x\<close> the integer part of the binary logarithm of \<open>|x|\<close>.
\<close>

function ilog2 :: "int \<Rightarrow> int" where
  "ilog2 n = (if n < 2 then 0 else 1 + ilog2 (n div 2))"
  by pat_completeness auto
termination
  by (relation "measure nat") auto

declare ilog2.simps [simp del]

definition pow2 :: "int \<Rightarrow> rat" where
  "pow2 k = (if k \<ge> 0 then 2 ^ nat k else 1 / 2 ^ nat (- k))"

definition exponentOf :: "rat \<Rightarrow> int" where
  "exponentOf x =
     (let (p, q) = quotient_of \<bar>x\<bar>;
          k = ilog2 p - ilog2 q
      in if pow2 k \<le> \<bar>x\<bar> then k else k - 1)"

definition roundHalfEven :: "rat \<Rightarrow> int" where
  "roundHalfEven t =
     (let f = \<lfloor>t\<rfloor>;
          r = t - of_int f
      in if r < 1 / 2 then f
         else if r > 1 / 2 then f + 1
         else if even f then f else f + 1)"

definition roundToDouble :: "rat \<Rightarrow> rat" where
  "roundToDouble x =
     (if x = 0 then 0
      else (let e = max (exponentOf x - 52) (- 1074);
                m = roundHalfEven (\<bar>x\<bar> / pow2 e)
            in sgn x * of_int m * pow2 e))"

text \<open>
  A rounded result beyond the largest finite double is \<open>Infinity\<close>, and \<open>+\<close>,
  \<open>-\<close> and \<open>*\<close> with an operand that is \<open>Infinity\<close> or \<open>NaN\<close> give
  \<open>Infinity\<close> or \<open>NaN\<close> again. \<open>toDouble\<close> gives the finite double of a result,
  or \<open>None\<close> when the result is not a finite number. The sign of zero is not
  modelled.
\<close>

definition maxDouble :: rat where
  "maxDouble = (2 ^ 53 - 1) * 2 ^ 971"

definition toDouble :: "rat \<Rightarrow> rat option" where
  "toDouble x = (let y = roundToDouble x in if \<bar>y\<bar> \<le> maxDouble then Some y else None)"

text \<open>
  The total shown in the last cell of a shift's table row,
  \<open>shift.hours * shift.hourlyRate + (shift.bonus || 0) - (shift.deductions || 0)\<close>,
  and the fold of \<open>calculateSalary\<close>, whose step is
  \<open>total + base + bonus - deductions\<close> with \<open>base = shift.hours * shift.hourlyRate\<close>.
  The rounding \<open>fl\<close> applied after each operation is a parameter: the component runs
  with \<open>toDouble\<close>; with \<open>Some\<close> the same expressions are evaluated in exact
  arithmetic. \<open>None\<close> is a figure that is not a finite number.
\<close>

definition shiftTotalWith :: "(rat \<Rightarrow> rat option) \<Rightarrow> shift \<Rightarrow> number option" where
  "shiftTotalWith fl shift =
     do {
       base \<leftarrow> fl (s_hours shift * s_hourlyRate shift);
       withBonus \<leftarrow> fl (base + orZero (s_bonus shift));
       fl (withBonus - orZero (s_deductions shift))
     }"

definition calculateSalaryWith :: "(rat \<Rightarrow> rat option) \<Rightarrow> shift list \<Rightarrow> number option" where
  "calculateSalaryWith fl shifts =
     foldl (\<lambda>total shift.
              do {
                base \<leftarrow> fl (s_hours shift * s_hourlyRate shift);
                let bonus = orZero (s_bonus shift);
                let deductions = orZero (s_deductions shift);
                t \<leftarrow> total;
                withBase \<leftarrow> fl (t + base);
                withBonus \<leftarrow> fl (withBase + bonus);
                fl (withBonus - deductions)
              }) (Some 0) shifts"

definition shiftTotal :: "shift \<Rightarrow> number option" where
  "shiftTotal = shiftTotalWith toDouble"

definition calculateSalary :: "shift list \<Rightarrow> number option" where
  "calculateSalary = calculateSalaryWith toDouble"

subsection \<open>Due-payment notifications\<close>

text \<open>
  A notification is \<open>{id, message, type}\<close> with \<open>type\<close> one of \<open>'info'\<close>,
  \<open>'warning'\<close>, \<open>'error'\<close>. The message is a template filled with the payment's name,
  its amount and the number of days; it is kept as these three parameters.
\<close>

datatype notificationType = Info | Warning | Error

datatype message = PaymentDueIn string number int

record notification =
  n_id :: string
  n_message :: message
  n_type :: notificationType

text \<open>
  The body of the effect that runs whenever the payments change; \<open>today\<close> is the
  instant \<open>new Date()\<close> read at that moment. The filter callback returns early on a paid
  payment.
\<close>

definition checkUpcomingPayments :: "date \<Rightarrow> payment list \<Rightarrow> notification list" where
  "checkUpcomingPayments today payments =
     (let upcomingPayments =
            filter (\<lambda>payment.
                      if p_status payment = Paid then False
                      else (let daysUntilDue = differenceInDays (p_dueDate payment) today
                            in daysUntilDue \<le> 3 \<and> daysUntilDue \<ge> 0))
                   payments;
          newNotifications =
            map (\<lambda>payment.
                   \<lparr>n_id = p_id payment,
                    n_message = PaymentDueIn (p_name payment) (p_amount payment)
                                  (differenceInDays (p_dueDate payment) today),
                    n_type = (if differenceInDays (p_dueDate payment) today = 0
                              then Error else Warning)\<rparr>)
                upcomingPayments
      in newNotifications)"

subsection \<open>Form schemas\<close>

text \<open>
  The values a form hands to its resolver are not yet typed: a text field may be absent,
  a number field registered with \<open>valueAsNumber\<close> is \<open>NaN\<close> when the input is empty, a
  date field registered with \<open>valueAsDate\<close> may hold no valid date.
\<close>

datatype rawNumber = Undefined | NaN | Num number

record transactionValues =
  tv_type :: "string option"
  tv_category :: "string option"
  tv_amount :: rawNumber
  tv_description :: "string option"
  tv_date :: "date option"

record shiftValues =
  sv_date :: "date option"
  sv_hours :: rawNumber
  sv_hourlyRate :: rawNumber
  sv_bonus :: rawNumber
  sv_deductions :: rawNumber

record paymentValues =
  pv_name :: "string option"
  pv_amount :: rawNumber
  pv_dueDate :: "date option"
  pv_type :: "string option"

text \<open>The validated data: \<open>TransactionForm\<close>, \<open>ShiftForm\<close>, \<open>PaymentForm\<close>.\<close>

record transactionForm =
  tf_type :: kind
  tf_category :: string
  tf_amount :: number
  tf_description :: string
  tf_date :: date

record shiftForm =
  sf_date :: date
  sf_hours :: number
  sf_hourlyRate :: number
  sf_bonus :: "number option"
  sf_deductions :: "number option"

record paymentForm =
  pf_name :: string
  pf_amount :: number
  pf_dueDate :: date
  pf_type :: paymentType

text \<open>
  The error taxonomy. A failed parse carries the names of the fields that have an issue,
  in the order of the schema's keys.
\<close>

datatype error = ValidationError "string list" | NotFoundError | InvalidTransitionError

text \<open>The field parsers: \<open>z.enum([...])\<close>, \<open>z.string().min(1, msg)\<close>,
  \<open>z.number().min(1, msg)\<close>, \<open>z.number().optional()\<close>, \<open>z.date()\<close>. \<open>None\<close> is an
  issue on the field.\<close>

definition enumKind :: "string option \<Rightarrow> kind option" where
  "enumKind v =
     (if v = Some ''income'' then Some Income
      else if v = Some ''expense'' then Some Expense
      else None)"

definition enumPaymentType :: "string option \<Rightarrow> paymentType option" where
  "enumPaymentType v =
     (if v = Some ''recurring'' then Some Recurring
      else if v = Some ''credit'' then Some Credit
      else if v = Some ''debt'' then Some Debt
      else None)"

definition stringMin1 :: "string option \<Rightarrow> string option" where
  "stringMin1 v = (case v of None \<Rightarrow> None | Some s \<Rightarrow> (if length s \<ge> 1 then Some s else None))"

definition numberMin1 :: "rawNumber \<Rightarrow> number option" where
  "numberMin1 v = (case v of Num n \<Rightarrow> (if n \<ge> 1 then Some n else None) | _ \<Rightarrow> None)"

definition numberOptional :: "rawNumber \<Rightarrow> number option option" where
  "numberOptional v = (case v of Undefined \<Rightarrow> Some None | NaN \<Rightarrow> None | Num n \<Rightarrow> Some (Some n))"

definition zDate :: "date option \<Rightarrow> date option" where
  "zDate v = v"

definition issue :: "string \<Rightarrow> 'a option \<Rightarrow> string list" where
  "issue field parsed = (case parsed of None \<Rightarrow> [field] | Some _ \<Rightarrow> [])"

definition transactionSchema :: "transactionValues \<Rightarrow> error + transactionForm" where
  "transactionSchema v =
     (case do {
             ty \<leftarrow> enumKind (tv_type v);
             category \<leftarrow> stringMin1 (tv_category v);
             amount \<leftarrow> numberMin1 (tv_amount v);
             description \<leftarrow> stringMin1 (tv_description v);
             dt \<leftarrow> zDate (tv_date v);
             Some \<lparr>tf_type = ty, tf_category = category, tf_amount = amount,
                   tf_description = description, tf_date = dt\<rparr>
           } of
        Some parsed \<Rightarrow> Inr parsed
      | None \<Rightarrow>
          Inl (ValidationError
                (issue ''type'' (enumKind (tv_type v))
                 @ issue ''category'' (stringMin1 (tv_category v))
                 @ issue ''amount'' (numberMin1 (tv_amount v))
                 @ issue ''description'' (stringMin1 (tv_description v))
                 @ issue ''date'' (zDate (tv_date v)))))"

definition shiftSchema :: "shiftValues \<Rightarrow> error + shiftForm" where
  "shiftSchema v =
     (case do {
             dt \<leftarrow> zDate (sv_date v);
             hours \<leftarrow> numberMin1 (sv_hours v);
             hourlyRate \<leftarrow> numberMin1 (sv_hourlyRate v);
             bonus \<leftarrow> numberOptional (sv_bonus v);
             deductions \<leftarrow> numberOptional (sv_deductions v);
             Some \<lparr>sf_date = dt, sf_hours = hours, sf_hourlyRate = hourlyRate,
                   sf_bonus = bonus, sf_deductions = deductions\<rparr>
           } of
        Some parsed \<Rightarrow> Inr parsed
      | None \<Rightarrow>
          Inl (ValidationError
                (issue ''date'' (zDate (sv_date v))
                 @ issue ''hours'' (numberMin1 (sv_hours v))
                 @ issue ''hourlyRate'' (numberMin1 (sv_hourlyRate v))
                 @ issue ''bonus'' (numberOptional (sv_bonus v))
                 @ issue ''deductions'' (numberOptional (sv_deductions v)))))"

definition paymentSchema :: "paymentValues \<Rightarrow> error + paymentForm" where
  "paymentSchema v =
     (case do {
             name \<leftarrow> stringMin1 (pv_name v);
             amount \<leftarrow> numberMin1 (pv_amount v);
             dueDate \<leftarrow> zDate (pv_dueDate v);
             ty \<leftarrow> enumPaymentType (pv_type v);
             Some \<lparr>pf_name = name, pf_amount = amount, pf_dueDate = dueDate, pf_type = ty\<rparr>
           } of
        Some parsed \<Rightarrow> Inr parsed
      | None \<Rightarrow>
          Inl (ValidationError
                (issue ''name'' (stringMin1 (pv_name v))
                 @ issue ''amount'' (numberMin1 (pv_amount v))
                 @ issue ''dueDate'' (zDate (pv_dueDate v))
                 @ issue ''type'' (enumPaymentType (pv_type v)))))"

subsection \<open>Record ids\<close>

text \<open>
  \<open>Date.now().toString()\<close>: the decimal numeral of an integer clock reading.
\<close>

definition digitChar :: "int \<Rightarrow> char" where
  "digitChar d = ''0123456789'' ! nat d"

function digits :: "int \<Rightarrow> string" where
  "digits n = (if n < 10 then [digitChar n] else digits (n div 10) @ [digitChar (n mod 10)])"
  by pat_completeness auto
termination
  by (relation "measure nat") auto

declare digits.simps [simp del]

definition toString :: "int \<Rightarrow> string" where
  "toString n = (if n < 0 then CHR ''-'' # digits (- n) else digits n)"

subsection \<open>The component state and its handlers\<close>

record store =
  transactions :: "transaction list"
  payments :: "payment list"
  shifts :: "shift list"

text \<open>The initial values of the three state hooks.\<close>

definition initialStore :: store where
  "initialStore =
     \<lparr>transactions =
        [\<lparr>t_id = ''1'', t_type = Income, t_category = ''Zarplata'', t_amount = 85000,
          t_description = ''Osnovnaya zarplata'', t_date = newDate 2025 1 15\<rparr>,
         \<lparr>t_id = ''2'', t_type = Expense, t_category = ''ZhKKh'', t_amount = 8500,
          t_description = ''Kommunalnye uslugi'', t_date = newDate 2025 1 10\<rparr>,
         \<lparr>t_id = ''3'', t_type = Expense, t_category = ''Produkty'', t_amount = 12000,
          t_description = ''Produktovye pokupki'', t_date = newDate 2025 1 8\<rparr>,
         \<lparr>t_id = ''4'', t_type = Income, t_category = ''Frilans'', t_amount = 25000,
          t_description = ''Dopolnitelnyi dokhod'', t_date = newDate 2025 1 20\<rparr>],
      payments =
        [\<lparr>p_id = ''1'', p_name = ''ZhKKh'', p_amount = 8500, p_dueDate = newDate 2025 2 10,
          p_status = Pending, p_type = Recurring\<rparr>,
         \<lparr>p_id = ''2'', p_name = ''Kredit bank'', p_amount = 15000,
          p_dueDate = newDate 2025 2 5, p_status = Pending, p_type = Credit\<rparr>,
         \<lparr>p_id = ''3'', p_name = ''Internet'', p_amount = 1200, p_dueDate = newDate 2025 2 1,
          p_status = Overdue, p_type = Recurring\<rparr>,
         \<lparr>p_id = ''4'', p_name = ''Mobilnaya svyaz'', p_amount = 800,
          p_dueDate = newDate 2025 2 3, p_status = Paid, p_type = Recurring\<rparr>],
      shifts =
        [\<lparr>s_id = ''1'', s_date = newDate 2025 1 15, s_hours = 8, s_hourlyRate = 800,
          s_bonus = Some 2000, s_deductions = None\<rparr>,
         \<lparr>s_id = ''2'', s_date = newDate 2025 1 16, s_hours = 8, s_hourlyRate = 800,
          s_bonus = None, s_deductions = None\<rparr>,
         \<lparr>s_id = ''3'', s_date = newDate 2025 1 17, s_hours = 6, s_hourlyRate = 800,
          s_bonus = None, s_deductions = Some 300\<rparr>,
         \<lparr>s_id = ''4'', s_date = newDate 2025 1 18, s_hours = 8, s_hourlyRate = 800,
          s_bonus = Some 1000, s_deductions = None\<rparr>]\<rparr>"

text \<open>Every handler ends by showing a toast; the toast is kept by its title.\<close>

datatype toast = TransactionAdded | ShiftAdded | PaymentAdded | PaymentMarkedPaid

text \<open>
  The handlers. \<open>now\<close> is the value \<open>Date.now()\<close> returns when the handler runs. A
  state setter called with \<open>prev => [x, ...prev]\<close> puts the new record first.
\<close>

definition addTransaction :: "int \<Rightarrow> transactionForm \<Rightarrow> store \<Rightarrow> toast \<times> store" where
  "addTransaction now data st =
     (let newTransaction =
            \<lparr>t_id = toString now, t_type = tf_type data, t_category = tf_category data,
             t_amount = tf_amount data, t_description = tf_description data,
             t_date = tf_date data\<rparr>
      in (TransactionAdded, st\<lparr>transactions := newTransaction # transactions st\<rparr>))"

definition addShift :: "int \<Rightarrow> shiftForm \<Rightarrow> store \<Rightarrow> toast \<times> store" where
  "addShift now data st =
     (let newShift =
            \<lparr>s_id = toString now, s_date = sf_date data, s_hours = sf_hours data,
             s_hourlyRate = sf_hourlyRate data, s_bonus = sf_bonus data,
             s_deductions = sf_deductions data\<rparr>
      in (ShiftAdded, st\<lparr>shifts := newShift # shifts st\<rparr>))"

definition addPayment :: "int \<Rightarrow> paymentForm \<Rightarrow> store \<Rightarrow> toast \<times> store" where
  "addPayment now data st =
     (let newPayment =
            \<lparr>p_id = toString now, p_name = pf_name data, p_amount = pf_amount data,
             p_dueDate = pf_dueDate data, p_status = Pending, p_type = pf_type data\<rparr>
      in (PaymentAdded, st\<lparr>payments := newPayment # payments st\<rparr>))"

definition markPaymentAsPaid :: "string \<Rightarrow> store \<Rightarrow> toast \<times> store" where
  "markPaymentAsPaid paymentId st =
     (PaymentMarkedPaid,
      st\<lparr>payments :=
           map (\<lambda>payment. if p_id payment = paymentId then payment\<lparr>p_status := Paid\<rparr>
                           else payment)
               (payments st)\<rparr>)"

text \<open>
  \<open>form.handleSubmit(onSubmit)\<close> with \<open>zodResolver(schema)\<close>: the handler runs on the
  parsed data only when the schema accepts the values; otherwise the issues are reported
  and the state is left as it is.
\<close>

definition handleSubmit ::
  "('v \<Rightarrow> error + 'f) \<Rightarrow> ('f \<Rightarrow> store \<Rightarrow> toast \<times> store) \<Rightarrow> 'v \<Rightarrow> store \<Rightarrow> error + toast \<times> store" where
  "handleSubmit resolver onSubmit v st =
     (case resolver v of Inl e \<Rightarrow> Inl e | Inr data \<Rightarrow> Inr (onSubmit data st))"

text \<open>
  What the user can do to the state: submit one of the three forms (at a clock reading)
  or press the mark-as-paid button of a payment. The page renders that button only in
  the rows of payments that are not paid; the handler itself takes any id and has no
  failure path.
\<close>

datatype event =
    SubmitTransaction int transactionValues
  | SubmitShift int shiftValues
  | SubmitPayment int paymentValues
  | MarkPaid string

fun step :: "store \<Rightarrow> event \<Rightarrow> error + toast \<times> store" where
  "step st (SubmitTransaction now v) = handleSubmit transactionSchema (addTransaction now) v st"
| "step st (SubmitShift now v) = handleSubmit shiftSchema (addShift now) v st"
| "step st (SubmitPayment now v) = handleSubmit paymentSchema (addPayment now) v st"
| "step st (MarkPaid paymentId) = Inr (markPaymentAsPaid paymentId st)"

definition exec :: "store \<Rightarrow> event \<Rightarrow> store" where
  "exec st e = (case step st e of Inl _ \<Rightarrow> st | Inr (_, st') \<Rightarrow> st')"

definition run :: "store \<Rightarrow> event list \<Rightarrow> store" where
  "run st es = foldl exec st es"

text \<open>The clock readings at which the events of a run stored, or tried to store, a record.\<close>

fun clockReadings :: "event list \<Rightarrow> int list" where
  "clockReadings [] = []"
| "clockReadings (SubmitTransaction now v # es) = now # clockReadings es"
| "clockReadings (SubmitShift now v # es) = now # clockReadings es"
| "clockReadings (SubmitPayment now v # es) = now # clockReadings es"
| "clockReadings (MarkPaid paymentId # es) = clockReadings es"

section \<open>Aggregation\<close>

lemma foldl_plus_sum_list:
  fixes a :: number
  shows "foldl (\<lambda>acc x. acc + f x) a xs = a + sum_list (map f xs)"
  by (induction xs arbitrary: a) (simp_all add: add.assoc)

lemma totalIncome_totalByKind: "totalIncome ts = totalByKind ts Income"
  by (simp add: totalIncome_def totalByKind_def foldl_plus_sum_list)

lemma totalExpenses_totalByKind: "totalExpenses ts = totalByKind ts Expense"
  by (simp add: totalExpenses_def totalByKind_def foldl_plus_sum_list)

text \<open>
  C3. For every list of transactions, the balance is the total of the income amounts
  minus the total of the expense amounts, each total being the sum of the amounts of the
  transactions of that kind (the left folds of the component compute exactly these
  sums); on the empty list the balance and both totals are 0.
\<close>

theorem balance_is_income_minus_expense:
  "balance T = totalByKind T Income - totalByKind T Expense
   \<and> totalIncome T = totalByKind T Income
   \<and> totalExpenses T = totalByKind T Expense
   \<and> balance [] = 0 \<and> totalIncome [] = 0 \<and> totalExpenses [] = 0
   \<and> totalByKind [] k = 0"
  by (simp add: balance_def totalIncome_totalByKind totalExpenses_totalByKind totalByKind_def)

lemma orZero_nullishZero: "orZero x = nullishZero x"
  by (cases x) (simp_all add: orZero_def nullishZero_def)

lemma orZero_simps: "orZero None = 0" "orZero (Some v) = v"
  by (simp_all add: orZero_def)

lemma exact_fold_is_sum:
  "foldl (\<lambda>total shift.
            do {
              base \<leftarrow> Some (s_hours shift * s_hourlyRate shift);
              let bonus = orZero (s_bonus shift);
              let deductions = orZero (s_deductions shift);
              t \<leftarrow> total;
              withBase \<leftarrow> Some (t + base);
              withBonus \<leftarrow> Some (withBase + bonus);
              Some (withBonus - deductions)
            }) (Some a) ss
   = Some (a + sum_list (map (\<lambda>s. s_hours s * s_hourlyRate s + nullishZero (s_bonus s)
                                    - nullishZero (s_deductions s)) ss))"
  by (induction ss arbitrary: a) (simp_all add: Let_def orZero_nullishZero algebra_simps)

lemma shiftTotal_unfold:
  "shiftTotal s =
     do {
       base \<leftarrow> toDouble (s_hours s * s_hourlyRate s);
       withBonus \<leftarrow> toDouble (base + orZero (s_bonus s));
       toDouble (withBonus - orZero (s_deductions s))
     }"
  by (simp add: shiftTotal_def shiftTotalWith_def)

lemma calculateSalary_snoc:
  "calculateSalary (ss @ [s]) =
     do {
       base \<leftarrow> toDouble (s_hours s * s_hourlyRate s);
       t \<leftarrow> calculateSalary ss;
       withBase \<leftarrow> toDouble (t + base);
       withBonus \<leftarrow> toDouble (withBase + orZero (s_bonus s));
       toDouble (withBonus - orZero (s_deductions s))
     }"
  by (simp add: calculateSalary_def calculateSalaryWith_def Let_def)

lemma calculateSalary_two:
  "calculateSalary [a, b] =
     do {
       baseB \<leftarrow> toDouble (s_hours b * s_hourlyRate b);
       t \<leftarrow> do {
              baseA \<leftarrow> toDouble (s_hours a * s_hourlyRate a);
              withBaseA \<leftarrow> toDouble (0 + baseA);
              withBonusA \<leftarrow> toDouble (withBaseA + orZero (s_bonus a));
              toDouble (withBonusA - orZero (s_deductions a))
            };
       withBase \<leftarrow> toDouble (t + baseB);
       withBonus \<leftarrow> toDouble (withBase + orZero (s_bonus b));
       toDouble (withBonus - orZero (s_deductions b))
     }"
  by (simp add: calculateSalary_def calculateSalaryWith_def Let_def)

text \<open>
  The roundings that the examples below go through, one operation at a time; none of
  them leaves the finite range.
\<close>

lemma roundToDouble_steps:
  "roundToDouble 1 = 1" "roundToDouble 2 = 2"
  "roundToDouble 4500 = 4500" "roundToDouble 4800 = 4800"
  "roundToDouble 6400 = 6400" "roundToDouble 8400 = 8400" "roundToDouble 12800 = 12800"
  "roundToDouble 10000000000000000 = 10000000000000000"
  "roundToDouble (10000000000000000 + 1) = 10000000000000000"
  "roundToDouble (10000000000000000 + 2) = 10000000000000002"
  "roundToDouble (2 / 10) = 3602879701896397 / 18014398509481984"
  "roundToDouble (1 / 10) = 3602879701896397 / 36028797018963968"
  "roundToDouble (12800 + 3602879701896397 / 18014398509481984)
     = 3518492184464589 / 274877906944"
  "roundToDouble (3518492184464589 / 274877906944 - 3602879701896397 / 36028797018963968)
     = 7036929393347789 / 549755813888"
  "roundToDouble (6400 + 3602879701896397 / 18014398509481984)
     = 7037094320091955 / 1099511627776"
  "roundToDouble (7037094320091955 / 1099511627776 - 3602879701896397 / 36028797018963968)
     = 7036984368929177 / 1099511627776"
  "roundToDouble (6400 + 7036984368929177 / 1099511627776)
     = 1759232348336947 / 137438953472"
  by code_simp+

lemma toDouble_steps:
  "toDouble 1 = Some 1" "toDouble 2 = Some 2"
  "toDouble 4500 = Some 4500" "toDouble 4800 = Some 4800"
  "toDouble 6400 = Some 6400" "toDouble 8400 = Some 8400" "toDouble 12800 = Some 12800"
  "toDouble 10000000000000000 = Some 10000000000000000"
  "toDouble (10000000000000000 + 1) = Some 10000000000000000"
  "toDouble (10000000000000000 + 2) = Some 10000000000000002"
  "toDouble (12800 + 3602879701896397 / 18014398509481984)
     = Some (3518492184464589 / 274877906944)"
  "toDouble (3518492184464589 / 274877906944 - 3602879701896397 / 36028797018963968)
     = Some (7036929393347789 / 549755813888)"
  "toDouble (6400 + 3602879701896397 / 18014398509481984)
     = Some (7037094320091955 / 1099511627776)"
  "toDouble (7037094320091955 / 1099511627776 - 3602879701896397 / 36028797018963968)
     = Some (7036984368929177 / 1099511627776)"
  "toDouble (6400 + 7036984368929177 / 1099511627776)
     = Some (1759232348336947 / 137438953472)"
  by (simp_all only: toDouble_def roundToDouble_steps Let_def) (simp_all add: maxDouble_def)

lemma double_arith:
  "(8::rat) * 800 = 6400" "(6::rat) * 800 = 4800"
  "(0::rat) + 6400 = 6400" "(6400::rat) + 0 = 6400"
  "(6400::rat) - 0 = 6400" "(6400::rat) + 6400 = 12800"
  "(6400::rat) + 2000 = 8400" "(8400::rat) - 0 = 8400"
  "(4800::rat) + 0 = 4800" "(4800::rat) - 300 = 4500"
  "(10000000000000000::rat) * 1 = 10000000000000000"
  "(0::rat) + 10000000000000000 = 10000000000000000"
  "(10000000000000000::rat) + 0 = 10000000000000000"
  "(10000000000000000::rat) - 0 = 10000000000000000"
  "(1::rat) * 1 = 1" "(1::rat) + 1 = 2" "(2::rat) - 0 = 2"
  by simp_all

text \<open>
  C4, as the component computes it. The derived total of a shift is hours times hourly
  rate, plus the bonus, minus the deductions, an absent bonus or deduction counting as 0,
  each result rounded to a double. A shift of 8 hours at 800 with a bonus of 2000 totals
  8400; a shift of 6 hours at 800 with deductions of 300 totals 4500. The salary of a
  list of shifts is 0 for the empty list and otherwise a fold from the left: the base pay
  and the bonus of each shift are added to the running total and its deductions are
  subtracted from it, one after the other, each result rounded. In exact arithmetic (no
  rounding) the total of a shift is the plain expression and the fold is the sum of the
  totals of the shifts.
\<close>

theorem salary_is_rounded_fold:
  "shiftTotal s =
     do {
       base \<leftarrow> toDouble (s_hours s * s_hourlyRate s);
       withBonus \<leftarrow> toDouble (base + nullishZero (s_bonus s));
       toDouble (withBonus - nullishZero (s_deductions s))
     }
   \<and> shiftTotal \<lparr>s_id = i, s_date = d, s_hours = 8, s_hourlyRate = 800,
                   s_bonus = Some 2000, s_deductions = None\<rparr> = Some 8400
   \<and> shiftTotal \<lparr>s_id = i, s_date = d, s_hours = 6, s_hourlyRate = 800,
                   s_bonus = None, s_deductions = Some 300\<rparr> = Some 4500
   \<and> calculateSalary [] = Some 0
   \<and> calculateSalary (ss @ [s]) =
       do {
         base \<leftarrow> toDouble (s_hours s * s_hourlyRate s);
         t \<leftarrow> calculateSalary ss;
         withBase \<leftarrow> toDouble (t + base);
         withBonus \<leftarrow> toDouble (withBase + nullishZero (s_bonus s));
         toDouble (withBonus - nullishZero (s_deductions s))
       }
   \<and> shiftTotalWith Some s =
       Some (s_hours s * s_hourlyRate s + nullishZero (s_bonus s)
             - nullishZero (s_deductions s))
   \<and> calculateSalaryWith Some ss =
       Some (sum_list (map (\<lambda>s. s_hours s * s_hourlyRate s + nullishZero (s_bonus s)
                                  - nullishZero (s_deductions s)) ss))"
proof -
  have total: "shiftTotal s =
     do {
       base \<leftarrow> toDouble (s_hours s * s_hourlyRate s);
       withBonus \<leftarrow> toDouble (base + nullishZero (s_bonus s));
       toDouble (withBonus - nullishZero (s_deductions s))
     }"
    by (simp add: shiftTotal_unfold orZero_nullishZero)
  have ex1: "shiftTotal \<lparr>s_id = i, s_date = d, s_hours = 8, s_hourlyRate = 800,
                   s_bonus = Some 2000, s_deductions = None\<rparr> = Some 8400"
    by (simp only: shiftTotal_unfold shift.select_convs orZero_simps double_arith
          toDouble_steps bind.simps)
  have ex2: "shiftTotal \<lparr>s_id = i, s_date = d, s_hours = 6, s_hourlyRate = 800,
                   s_bonus = None, s_deductions = Some 300\<rparr> = Some 4500"
    by (simp only: shiftTotal_unfold shift.select_convs orZero_simps double_arith
          toDouble_steps bind.simps)
  have empty: "calculateSalary [] = Some 0"
    by (simp add: calculateSalary_def calculateSalaryWith_def)
  have fold: "calculateSalary (ss @ [s]) =
       do {
         base \<leftarrow> toDouble (s_hours s * s_hourlyRate s);
         t \<leftarrow> calculateSalary ss;
         withBase \<leftarrow> toDouble (t + base);
         withBonus \<leftarrow> toDouble (withBase + nullishZero (s_bonus s));
         toDouble (withBonus - nullishZero (s_deductions s))
       }"
    by (simp add: calculateSalary_snoc orZero_nullishZero)
  have exact_total: "shiftTotalWith Some s =
       Some (s_hours s * s_hourlyRate s + nullishZero (s_bonus s)
             - nullishZero (s_deductions s))"
    by (simp add: shiftTotalWith_def orZero_nullishZero)
  have exact: "calculateSalaryWith Some ss =
       Some (sum_list (map (\<lambda>s. s_hours s * s_hourlyRate s + nullishZero (s_bonus s)
                                  - nullishZero (s_deductions s)) ss))"
    unfolding calculateSalaryWith_def exact_fold_is_sum by simp
  from total ex1 ex2 empty fold exact_total exact show ?thesis
    by (intro conjI)
qed

text \<open>
  C4 as stated fails: in doubles the fold is not always the sum of the totals of the
  shifts. For a shift of 8 hours at 800 followed by one of 8 hours at 800 with a bonus of
  0.2 and deductions of 0.1, the fold gives the double 12800.1 while the two totals, 6400
  and 6400.099999999999, add up to 12800.099999999999, rounded or not. With whole
  numbers, a shift of 1e16 hours at 1 followed by one of 1 hour at 1 with a bonus of 1:
  the fold gives 1e16, the totals 1e16 and 2 add up to 10000000000000002.
\<close>

theorem salary_differs_from_sum_of_totals:
  "calculateSalary
     [\<lparr>s_id = ''1'', s_date = 0, s_hours = 8, s_hourlyRate = 800,
       s_bonus = None, s_deductions = None\<rparr>,
      \<lparr>s_id = ''2'', s_date = 0, s_hours = 8, s_hourlyRate = 800,
       s_bonus = Some (roundToDouble (2 / 10)), s_deductions = Some (roundToDouble (1 / 10))\<rparr>]
     = Some (7036929393347789 / 549755813888)
   \<and> shiftTotal \<lparr>s_id = ''1'', s_date = 0, s_hours = 8, s_hourlyRate = 800,
                   s_bonus = None, s_deductions = None\<rparr> = Some 6400
   \<and> shiftTotal \<lparr>s_id = ''2'', s_date = 0, s_hours = 8, s_hourlyRate = 800,
                   s_bonus = Some (roundToDouble (2 / 10)),
                   s_deductions = Some (roundToDouble (1 / 10))\<rparr>
     = Some (7036984368929177 / 1099511627776)
   \<and> toDouble (6400 + 7036984368929177 / 1099511627776)
     = Some (1759232348336947 / 137438953472)
   \<and> (7036929393347789 / 549755813888 :: rat) \<noteq> 1759232348336947 / 137438953472
   \<and> (7036929393347789 / 549755813888 :: rat) \<noteq> 6400 + 7036984368929177 / 1099511627776
   \<and> calculateSalary
     [\<lparr>s_id = ''1'', s_date = 0, s_hours = 8, s_hourlyRate = 800,
       s_bonus = None, s_deductions = None\<rparr>,
      \<lparr>s_id = ''2'', s_date = 0, s_hours = 8, s_hourlyRate = 800,
       s_bonus = Some (roundToDouble (2 / 10)), s_deductions = Some (roundToDouble (1 / 10))\<rparr>]
     \<noteq> do {
         a \<leftarrow> shiftTotal \<lparr>s_id = ''1'', s_date = 0, s_hours = 8, s_hourlyRate = 800,
                           s_bonus = None, s_deductions = None\<rparr>;
         b \<leftarrow> shiftTotal \<lparr>s_id = ''2'', s_date = 0, s_hours = 8, s_hourlyRate = 800,
                           s_bonus = Some (roundToDouble (2 / 10)),
                           s_deductions = Some (roundToDouble (1 / 10))\<rparr>;
         toDouble (a + b)
       }
   \<and> calculateSalary
     [\<lparr>s_id = ''1'', s_date = 0, s_hours = 10000000000000000, s_hourlyRate = 1,
       s_bonus = None, s_deductions = None\<rparr>,
      \<lparr>s_id = ''2'', s_date = 0, s_hours = 1, s_hourlyRate = 1,
       s_bonus = Some 1, s_deductions = None\<rparr>]
     = Some 10000000000000000
   \<and> shiftTotal \<lparr>s_id = ''1'', s_date = 0, s_hours = 10000000000000000, s_hourlyRate = 1,
                   s_bonus = None, s_deductions = None\<rparr> = Some 10000000000000000
   \<and> shiftTotal \<lparr>s_id = ''2'', s_date = 0, s_hours = 1, s_hourlyRate = 1,
                   s_bonus = Some 1, s_deductions = None\<rparr> = Some 2
   \<and> toDouble (10000000000000000 + 2) = Some 10000000000000002"
proof -
  note steps = shift.select_convs orZero_simps double_arith roundToDouble_steps(11,12)
    toDouble_steps bind.simps
  have folds:
    "calculateSalary
       [\<lparr>s_id = ''1'', s_date = 0, s_hours = 8, s_hourlyRate = 800,
         s_bonus = None, s_deductions = None\<rparr>,
        \<lparr>s_id = ''2'', s_date = 0, s_hours = 8, s_hourlyRate = 800,
         s_bonus = Some (roundToDouble (2 / 10)),
         s_deductions = Some (roundToDouble (1 / 10))\<rparr>]
       = Some (7036929393347789 / 549755813888)"
    "calculateSalary
       [\<lparr>s_id = ''1'', s_date = 0, s_hours = 10000000000000000, s_hourlyRate = 1,
         s_bonus = None, s_deductions = None\<rparr>,
        \<lparr>s_id = ''2'', s_date = 0, s_hours = 1, s_hourlyRate = 1,
         s_bonus = Some 1, s_deductions = None\<rparr>]
       = Some 10000000000000000"
    by (simp_all only: calculateSalary_two steps)
  have totals:
    "shiftTotal \<lparr>s_id = ''1'', s_date = 0, s_hours = 8, s_hourlyRate = 800,
                  s_bonus = None, s_deductions = None\<rparr> = Some 6400"
    "shiftTotal \<lparr>s_id = ''2'', s_date = 0, s_hours = 8, s_hourlyRate = 800,
                  s_bonus = Some (roundToDouble (2 / 10)),
                  s_deductions = Some (roundToDouble (1 / 10))\<rparr>
       = Some (7036984368929177 / 1099511627776)"
    "shiftTotal \<lparr>s_id = ''1'', s_date = 0, s_hours = 10000000000000000, s_hourlyRate = 1,
                  s_bonus = None, s_deductions = None\<rparr> = Some 10000000000000000"
    "shiftTotal \<lparr>s_id = ''2'', s_date = 0, s_hours = 1, s_hourlyRate = 1,
                  s_bonus = Some 1, s_deductions = None\<rparr> = Some 2"
    by (simp_all only: shiftTotal_unfold steps)
  have differ:
    "(7036929393347789 / 549755813888 :: rat) \<noteq> 1759232348336947 / 137438953472"
    "(7036929393347789 / 549755813888 :: rat) \<noteq> 6400 + 7036984368929177 / 1099511627776"
    by simp_all
  have direct:
    "calculateSalary
       [\<lparr>s_id = ''1'', s_date = 0, s_hours = 8, s_hourlyRate = 800,
         s_bonus = None, s_deductions = None\<rparr>,
        \<lparr>s_id = ''2'', s_date = 0, s_hours = 8, s_hourlyRate = 800,
         s_bonus = Some (roundToDouble (2 / 10)),
         s_deductions = Some (roundToDouble (1 / 10))\<rparr>]
     \<noteq> do {
         a \<leftarrow> shiftTotal \<lparr>s_id = ''1'', s_date = 0, s_hours = 8, s_hourlyRate = 800,
                           s_bonus = None, s_deductions = None\<rparr>;
         b \<leftarrow> shiftTotal \<lparr>s_id = ''2'', s_date = 0, s_hours = 8, s_hourlyRate = 800,
                           s_bonus = Some (roundToDouble (2 / 10)),
                           s_deductions = Some (roundToDouble (1 / 10))\<rparr>;
         toDouble (a + b)
       }"
    unfolding folds totals bind.simps toDouble_steps using differ(1) by simp
  from folds(1) totals(1,2) toDouble_steps(15) differ direct folds(2) totals(3,4)
    toDouble_steps(10)
  show ?thesis
    by (intro conjI)
qed

section \<open>Salary periods\<close>

lemma day_in_one_period:
  fixes d :: int
  shows "(d \<ge> 30 \<or> d \<le> 14) \<longleftrightarrow> \<not> (d \<ge> 15 \<and> d \<le> 29)"
  by arith

text \<open>
  C1. A shift of the list is put in period 1 exactly when the day of the month of its
  date is at least 30 or at most 14, and in period 2 exactly when that day is between 15
  and 29. Hence every shift is in exactly one of the two periods: day 14 is in period 1,
  day 15 in period 2, day 30 in period 1, and every day from 1 to 31 is in exactly one.
\<close>

theorem salaryPeriod_classification:
  "(s \<in> set (salaryPeriod1 ss) \<longleftrightarrow>
      s \<in> set ss \<and> (getDate (s_date s) \<ge> 30 \<or> getDate (s_date s) \<le> 14))
   \<and> (s \<in> set (salaryPeriod2 ss) \<longleftrightarrow>
      s \<in> set ss \<and> 15 \<le> getDate (s_date s) \<and> getDate (s_date s) \<le> 29)
   \<and> (s \<in> set ss \<and> getDate (s_date s) = 14 \<longrightarrow>
      s \<in> set (salaryPeriod1 ss) \<and> s \<notin> set (salaryPeriod2 ss))
   \<and> (s \<in> set ss \<and> getDate (s_date s) = 15 \<longrightarrow>
      s \<in> set (salaryPeriod2 ss) \<and> s \<notin> set (salaryPeriod1 ss))
   \<and> (s \<in> set ss \<and> getDate (s_date s) = 30 \<longrightarrow>
      s \<in> set (salaryPeriod1 ss) \<and> s \<notin> set (salaryPeriod2 ss))
   \<and> (s \<in> set ss \<and> 1 \<le> getDate (s_date s) \<and> getDate (s_date s) \<le> 31 \<longrightarrow>
      (s \<in> set (salaryPeriod1 ss)) \<noteq> (s \<in> set (salaryPeriod2 ss)))
   \<and> (s \<in> set ss \<longrightarrow>
      (s \<in> set (salaryPeriod1 ss)) \<noteq> (s \<in> set (salaryPeriod2 ss)))"
proof -
  have p1: "s \<in> set (salaryPeriod1 ss) \<longleftrightarrow>
      s \<in> set ss \<and> (getDate (s_date s) \<ge> 30 \<or> getDate (s_date s) \<le> 14)"
    by (simp add: salaryPeriod1_def)
  have p2: "s \<in> set (salaryPeriod2 ss) \<longleftrightarrow>
      s \<in> set ss \<and> 15 \<le> getDate (s_date s) \<and> getDate (s_date s) \<le> 29"
    by (simp add: salaryPeriod2_def)
  have one: "s \<in> set ss \<Longrightarrow>
      (s \<in> set (salaryPeriod1 ss)) \<noteq> (s \<in> set (salaryPeriod2 ss))"
    using day_in_one_period [of "getDate (s_date s)"] by (simp add: p1 p2)
  show ?thesis
    using p1 p2 one by auto
qed

text \<open>Day-of-month readings of four January dates.\<close>

lemma getDate_examples:
  "getDate (newDate 2025 1 14) = 14" "getDate (newDate 2025 1 15) = 15"
  "getDate (newDate 2025 1 30) = 30" "getDate (newDate 2025 1 31) = 31"
  by code_simp+

text \<open>
  C1, on three shifts worked on 14, 15 and 30 January 2025: the first and the third are in
  period 1, the second is in period 2.
\<close>

theorem salaryPeriod_classification_witness:
  "\<lparr>s_id = ''a'', s_date = newDate 2025 1 14, s_hours = 8, s_hourlyRate = 800,
      s_bonus = None, s_deductions = None\<rparr>
     \<in> set (salaryPeriod1
         [\<lparr>s_id = ''a'', s_date = newDate 2025 1 14, s_hours = 8, s_hourlyRate = 800,
            s_bonus = None, s_deductions = None\<rparr>,
          \<lparr>s_id = ''b'', s_date = newDate 2025 1 15, s_hours = 8, s_hourlyRate = 800,
            s_bonus = None, s_deductions = None\<rparr>,
          \<lparr>s_id = ''c'', s_date = newDate 2025 1 30, s_hours = 8, s_hourlyRate = 800,
            s_bonus = None, s_deductions = None\<rparr>])
   \<and> \<lparr>s_id = ''b'', s_date = newDate 2025 1 15, s_hours = 8, s_hourlyRate = 800,
      s_bonus = None, s_deductions = None\<rparr>
     \<in> set (salaryPeriod2
         [\<lparr>s_id = ''a'', s_date = newDate 2025 1 14, s_hours = 8, s_hourlyRate = 800,
            s_bonus = None, s_deductions = None\<rparr>,
          \<lparr>s_id = ''b'', s_date = newDate 2025 1 15, s_hours = 8, s_hourlyRate = 800,
            s_bonus = None, s_deductions = None\<rparr>,
          \<lparr>s_id = ''c'', s_date = newDate 2025 1 30, s_hours = 8, s_hourlyRate = 800,
            s_bonus = None, s_deductions = None\<rparr>])
   \<and> \<lparr>s_id = ''c'', s_date = newDate 2025 1 30, s_hours = 8, s_hourlyRate = 800,
      s_bonus = None, s_deductions = None\<rparr>
     \<in> set (salaryPeriod1
         [\<lparr>s_id = ''a'', s_date = newDate 2025 1 14, s_hours = 8, s_hourlyRate = 800,
            s_bonus = None, s_deductions = None\<rparr>,
          \<lparr>s_id = ''b'', s_date = newDate 2025 1 15, s_hours = 8, s_hourlyRate = 800,
            s_bonus = None, s_deductions = None\<rparr>,
          \<lparr>s_id = ''c'', s_date = newDate 2025 1 30, s_hours = 8, s_hourlyRate = 800,
            s_bonus = None, s_deductions = None\<rparr>])"
  (is "?a \<in> set (salaryPeriod1 ?xs) \<and> ?b \<in> set (salaryPeriod2 ?xs) \<and> ?c \<in> set (salaryPeriod1 ?xs)")
proof -
  have a: "?a \<in> set ?xs \<and> getDate (s_date ?a) = 14" by (simp add: getDate_examples)
  have b: "?b \<in> set ?xs \<and> getDate (s_date ?b) = 15" by (simp add: getDate_examples)
  have c: "?c \<in> set ?xs \<and> getDate (s_date ?c) = 30" by (simp add: getDate_examples)
  show ?thesis
    using a b c salaryPeriod_classification [of ?a ?xs]
      salaryPeriod_classification [of ?b ?xs] salaryPeriod_classification [of ?c ?xs]
    by blast
qed

section \<open>Due-payment notifications\<close>

text \<open>
  C2. For every list of payments and every reference instant, the notifier produces one
  notification for each payment that is not paid and whose number of whole days until
  the due date is between 0 and 3, and for no other payment; the notifications keep the
  order of the payments; a notification has type \<open>'error'\<close> (critical) when that
  number is 0 and type \<open>'warning'\<close> otherwise.
\<close>

theorem checkUpcomingPayments_characterised:
  "checkUpcomingPayments today ps =
     map (\<lambda>p. \<lparr>n_id = p_id p,
                n_message = PaymentDueIn (p_name p) (p_amount p)
                              (differenceInDays (p_dueDate p) today),
                n_type = (if differenceInDays (p_dueDate p) today = 0 then Error else Warning)\<rparr>)
         (filter (\<lambda>p. p_status p \<noteq> Paid
                       \<and> 0 \<le> differenceInDays (p_dueDate p) today
                       \<and> differenceInDays (p_dueDate p) today \<le> 3) ps)
   \<and> map n_id (checkUpcomingPayments today ps) =
       map p_id (filter (\<lambda>p. p_status p \<noteq> Paid
                       \<and> 0 \<le> differenceInDays (p_dueDate p) today
                       \<and> differenceInDays (p_dueDate p) today \<le> 3) ps)"
proof -
  have same_filter:
    "(\<lambda>payment. if p_status payment = Paid then False
                 else (let daysUntilDue = differenceInDays (p_dueDate payment) today
                       in daysUntilDue \<le> 3 \<and> daysUntilDue \<ge> 0))
     = (\<lambda>p. p_status p \<noteq> Paid \<and> 0 \<le> differenceInDays (p_dueDate p) today
             \<and> differenceInDays (p_dueDate p) today \<le> 3)"
    by (auto simp: Let_def fun_eq_iff)
  show ?thesis
    unfolding checkUpcomingPayments_def same_filter
    by (simp add: Let_def comp_def)
qed

text \<open>
  On the initial payments, ten hours into 1 February 2025: the credit due on the 5th is
  three full days away (a warning), the overdue bill due that midnight counts 0 days (an
  error), the bill due on the 10th is too far and the paid one is left out.
\<close>

lemma notification_examples:
  "checkUpcomingPayments (newDate 2025 2 1 + 36000000) (payments initialStore) =
     [\<lparr>n_id = ''2'', n_message = PaymentDueIn ''Kredit bank'' 15000 3, n_type = Warning\<rparr>,
      \<lparr>n_id = ''3'', n_message = PaymentDueIn ''Internet'' 1200 0, n_type = Error\<rparr>]"
  by code_simp

section \<open>Record ids are decimal numerals\<close>

lemma digitChar_in_digits: "0 \<le> d \<Longrightarrow> d < 10 \<Longrightarrow> digitChar d \<in> set ''0123456789''"
  unfolding digitChar_def by (rule nth_mem) simp

lemma digitChar_inj:
  assumes "0 \<le> a" "a < 10" "0 \<le> b" "b < 10" "digitChar a = digitChar b"
  shows "a = b"
proof -
  have "distinct ''0123456789''" by simp
  moreover have "nat a < length ''0123456789''" "nat b < length ''0123456789''"
    using assms by simp_all
  ultimately have "nat a = nat b"
    using assms(5) unfolding digitChar_def by (simp only: nth_eq_iff_index_eq)
  with assms show ?thesis by simp
qed

lemma digits_not_Nil: "digits n \<noteq> []"
  by (subst digits.simps) simp

lemma digits_chars: "0 \<le> n \<Longrightarrow> set (digits n) \<subseteq> set ''0123456789''"
proof (induction n rule: digits.induct)
  case (1 n)
  show ?case
  proof (cases "n < 10")
    case True
    with 1 show ?thesis
      using digitChar_in_digits [of n] by (subst digits.simps) simp
  next
    case False
    then have "0 \<le> n div 10" "0 \<le> n mod 10" "n mod 10 < 10" by simp_all
    with 1 False show ?thesis
      using digitChar_in_digits [of "n mod 10"] by (subst digits.simps) simp
  qed
qed

lemma digits_inj: "0 \<le> m \<Longrightarrow> 0 \<le> n \<Longrightarrow> digits m = digits n \<Longrightarrow> m = n"
proof (induction m arbitrary: n rule: digits.induct)
  case (1 m)
  show ?case
  proof (cases "m < 10")
    case m: True
    show ?thesis
    proof (cases "n < 10")
      case True
      with m 1 show ?thesis
        by (simp add: digits.simps [of m] digits.simps [of n] digitChar_inj)
    next
      case False
      with m 1(4) have "digits (n div 10) = []"
        by (simp add: digits.simps [of m] digits.simps [of n])
      then show ?thesis by (simp add: digits_not_Nil)
    qed
  next
    case m: False
    show ?thesis
    proof (cases "n < 10")
      case True
      with m 1(4) have "digits (m div 10) = []"
        by (simp add: digits.simps [of m] digits.simps [of n])
      then show ?thesis by (simp add: digits_not_Nil)
    next
      case False
      with m 1(4) have eq: "digits (m div 10) = digits (n div 10)"
        and last: "digitChar (m mod 10) = digitChar (n mod 10)"
        by (simp_all add: digits.simps [of m] digits.simps [of n])
      have "m div 10 = n div 10"
        using 1(1) [OF m _ _ eq] 1(2,3) by simp
      moreover have "m mod 10 = n mod 10"
        using last by (intro digitChar_inj) simp_all
      ultimately show ?thesis
        by (metis mult_div_mod_eq)
    qed
  qed
qed

lemma toString_inj: "toString a = toString b \<Longrightarrow> a = b"
proof -
  assume eq: "toString a = toString b"
  have no_minus: "CHR ''-'' \<notin> set (digits n)" if "0 \<le> n" for n
    using digits_chars [OF that] by auto
  have hd_digit: "digits n \<noteq> CHR ''-'' # cs" if "0 \<le> n" for n cs
    using no_minus [OF that] by (metis list.set_intros(1))
  show ?thesis
  proof (cases "a < 0")
    case a: True
    show ?thesis
    proof (cases "b < 0")
      case True
      with a eq have "digits (- a) = digits (- b)" by (simp add: toString_def)
      with a True have "- a = - b" by (intro digits_inj) simp_all
      then show ?thesis by simp
    next
      case False
      with a eq hd_digit [of b "digits (- a)"] show ?thesis by (simp add: toString_def)
    qed
  next
    case a: False
    show ?thesis
    proof (cases "b < 0")
      case True
      with a eq hd_digit [of a "digits (- b)"] show ?thesis by (simp add: toString_def)
    next
      case False
      with a eq show ?thesis by (simp add: toString_def digits_inj)
    qed
  qed
qed

section \<open>Events and runs\<close>

lemma mark_paid_fixes_paid: "p_status p = Paid \<Longrightarrow> p\<lparr>p_status := Paid\<rparr> = p"
  by simp

lemma step_errors: "step st e = Inl err \<Longrightarrow> \<exists>fields. err = ValidationError fields"
  by (cases e)
     (auto simp: handleSubmit_def transactionSchema_def shiftSchema_def paymentSchema_def
           split: sum.splits option.splits)

lemma exec_SubmitTransaction:
  "exec st (SubmitTransaction now v) =
     (case transactionSchema v of Inl _ \<Rightarrow> st
      | Inr d \<Rightarrow> st\<lparr>transactions := \<lparr>t_id = toString now, t_type = tf_type d,
           t_category = tf_category d, t_amount = tf_amount d,
           t_description = tf_description d, t_date = tf_date d\<rparr> # transactions st\<rparr>)"
  by (simp add: exec_def handleSubmit_def addTransaction_def split: sum.splits)

lemma exec_SubmitShift:
  "exec st (SubmitShift now v) =
     (case shiftSchema v of Inl _ \<Rightarrow> st
      | Inr d \<Rightarrow> st\<lparr>shifts := \<lparr>s_id = toString now, s_date = sf_date d, s_hours = sf_hours d,
           s_hourlyRate = sf_hourlyRate d, s_bonus = sf_bonus d,
           s_deductions = sf_deductions d\<rparr> # shifts st\<rparr>)"
  by (simp add: exec_def handleSubmit_def addShift_def split: sum.splits)

lemma exec_SubmitPayment:
  "exec st (SubmitPayment now v) =
     (case paymentSchema v of Inl _ \<Rightarrow> st
      | Inr d \<Rightarrow> st\<lparr>payments := \<lparr>p_id = toString now, p_name = pf_name d,
           p_amount = pf_amount d, p_dueDate = pf_dueDate d, p_status = Pending,
           p_type = pf_type d\<rparr> # payments st\<rparr>)"
  by (simp add: exec_def handleSubmit_def addPayment_def split: sum.splits)

lemma exec_MarkPaid:
  "exec st (MarkPaid pid) =
     st\<lparr>payments := map (\<lambda>payment. if p_id payment = pid then payment\<lparr>p_status := Paid\<rparr>
                                    else payment) (payments st)\<rparr>"
  by (simp add: exec_def markPaymentAsPaid_def)

lemmas exec_simps = exec_SubmitTransaction exec_SubmitShift exec_SubmitPayment exec_MarkPaid

lemma run_Nil: "run st [] = st"
  by (simp add: run_def)

lemma run_Cons: "run st (e # es) = run (exec st e) es"
  by (simp add: run_def)

lemma run_append: "run st (es @ es') = run (run st es) es'"
  by (simp add: run_def)

text \<open>
  Every event leaves the old payments in place, behind the payments it adds; it may only
  rewrite a payment that is not paid.
\<close>

lemma exec_payments_evolve:
  "\<exists>new f. payments (exec st e) = new @ map f (payments st)
      \<and> (\<forall>p. p_status p = Paid \<longrightarrow> f p = p)"
proof (cases e)
  case (MarkPaid pid)
  let ?f = "\<lambda>payment. if p_id payment = pid then payment\<lparr>p_status := Paid\<rparr> else payment"
  have "payments (exec st e) = [] @ map ?f (payments st)"
    by (simp add: MarkPaid exec_MarkPaid)
  moreover have "\<forall>p. p_status p = Paid \<longrightarrow> ?f p = p"
    by simp
  ultimately show ?thesis by blast
next
  case (SubmitPayment now v)
  show ?thesis
  proof (cases "paymentSchema v")
    case (Inl err)
    then have "payments (exec st e) = [] @ map (\<lambda>p. p) (payments st)"
      by (simp add: SubmitPayment exec_SubmitPayment)
    then show ?thesis by blast
  next
    case (Inr d)
    then have "payments (exec st e) =
        [\<lparr>p_id = toString now, p_name = pf_name d, p_amount = pf_amount d,
          p_dueDate = pf_dueDate d, p_status = Pending, p_type = pf_type d\<rparr>]
        @ map (\<lambda>p. p) (payments st)"
      by (simp add: SubmitPayment exec_SubmitPayment)
    then show ?thesis by blast
  qed
next
  case (SubmitTransaction now v)
  then have "payments (exec st e) = [] @ map (\<lambda>p. p) (payments st)"
    by (simp add: exec_SubmitTransaction split: sum.splits)
  then show ?thesis by blast
next
  case (SubmitShift now v)
  then have "payments (exec st e) = [] @ map (\<lambda>p. p) (payments st)"
    by (simp add: exec_SubmitShift split: sum.splits)
  then show ?thesis by blast
qed

lemma run_payments_evolve:
  "\<exists>new f. payments (run st es) = new @ map f (payments st)
      \<and> (\<forall>p. p_status p = Paid \<longrightarrow> f p = p)"
proof (induction es arbitrary: st)
  case Nil
  have "payments (run st []) = [] @ map (\<lambda>p. p) (payments st)"
    by (simp add: run_Nil)
  then show ?case by blast
next
  case (Cons e es)
  obtain new1 f1 where s1: "payments (exec st e) = new1 @ map f1 (payments st)"
    and f1: "\<forall>p. p_status p = Paid \<longrightarrow> f1 p = p"
    using exec_payments_evolve by blast
  obtain new2 f2 where s2: "payments (run (exec st e) es) = new2 @ map f2 (payments (exec st e))"
    and f2: "\<forall>p. p_status p = Paid \<longrightarrow> f2 p = p"
    using Cons.IH by blast
  have "payments (run st (e # es)) = (new2 @ map f2 new1) @ map (f2 \<circ> f1) (payments st)"
    by (simp add: run_Cons s1 s2)
  moreover have "\<forall>p. p_status p = Paid \<longrightarrow> (f2 \<circ> f1) p = p"
    using f1 f2 by simp
  ultimately show ?case by blast
qed

section \<open>Validation of a submitted transaction\<close>

text \<open>
  The transaction schema accepts exactly the values with an allowed type, a non-empty
  category and description, a valid date and an amount of at least 1; every other
  submission is answered with the list of the offending fields and stores nothing.
\<close>

lemma transactionSchema_accepts_iff:
  "(\<exists>d. transactionSchema v = Inr d) \<longleftrightarrow>
     (tv_type v = Some ''income'' \<or> tv_type v = Some ''expense'')
     \<and> (\<exists>c. tv_category v = Some c \<and> c \<noteq> [])
     \<and> (\<exists>a. tv_amount v = Num a \<and> 1 \<le> a)
     \<and> (\<exists>s. tv_description v = Some s \<and> s \<noteq> [])
     \<and> tv_date v \<noteq> None"
  by (auto simp: transactionSchema_def enumKind_def stringMin1_def numberMin1_def zDate_def
        Suc_le_eq split: option.splits rawNumber.splits if_splits bind_splits)

lemma transactionSchema_rejects_or_accepts:
  "(\<exists>fields. transactionSchema v = Inl (ValidationError fields) \<and> fields \<noteq> [])
   \<or> (\<exists>d. transactionSchema v = Inr d)"
  by (auto simp: transactionSchema_def issue_def split: option.splits bind_splits)

lemma submitTransaction_rejects_amount_below_1:
  assumes "tv_amount v = Num a" "a < 1"
  shows "\<exists>fields. step st (SubmitTransaction now v) = Inl (ValidationError fields)
           \<and> ''amount'' \<in> set fields"
    and "exec st (SubmitTransaction now v) = st"
  using assms
  by (auto simp: exec_def handleSubmit_def transactionSchema_def numberMin1_def issue_def
        split: option.splits bind_splits)

lemma submitTransaction_accepts_amount_1:
  assumes "tv_type v = Some ''income'' \<or> tv_type v = Some ''expense''"
    and "tv_category v = Some c" "c \<noteq> []"
    and "tv_amount v = Num 1"
    and "tv_description v = Some s" "s \<noteq> []"
    and "tv_date v = Some dt"
  shows "\<exists>k. step st (SubmitTransaction now v) =
           Inr (TransactionAdded,
                st\<lparr>transactions := \<lparr>t_id = toString now, t_type = k, t_category = c,
                      t_amount = 1, t_description = s, t_date = dt\<rparr> # transactions st\<rparr>)"
  using assms
  by (auto simp: handleSubmit_def transactionSchema_def addTransaction_def enumKind_def
        stringMin1_def numberMin1_def zDate_def Suc_le_eq)

text \<open>
  C5. A submitted transaction is turned down with a validation error exactly when it
  breaks a check, the amount check being that the amount is greater than 0 (the message
  of the schema says so). The component tests \<open>min(1)\<close> instead: an expense of one
  half, with every other field in order, is positive and yet is turned down on the field
  \<open>amount\<close>, and the state stays as it was.
\<close>

theorem submitTransaction_rejects_half:
  "(0::number) < 1 / 2
   \<and> step initialStore (SubmitTransaction 1738000000000
        \<lparr>tv_type = Some ''expense'', tv_category = Some ''food'', tv_amount = Num (1 / 2),
         tv_description = Some ''bread'', tv_date = Some (newDate 2025 1 27)\<rparr>)
      = Inl (ValidationError [''amount''])
   \<and> exec initialStore (SubmitTransaction 1738000000000
        \<lparr>tv_type = Some ''expense'', tv_category = Some ''food'', tv_amount = Num (1 / 2),
         tv_description = Some ''bread'', tv_date = Some (newDate 2025 1 27)\<rparr>)
      = initialStore"
  by (simp add: exec_def handleSubmit_def transactionSchema_def enumKind_def stringMin1_def
        numberMin1_def zDate_def issue_def)

section \<open>Adding a payment\<close>

text \<open>
  C8. The payment stored by \<open>addPayment\<close> has status pending whatever the submitted
  data are, and it is put in front of the payments already stored; this is what happens on
  every submission the payment schema accepts.
\<close>

theorem addPayment_forces_pending:
  "snd (addPayment now d st) =
     st\<lparr>payments := \<lparr>p_id = toString now, p_name = pf_name d, p_amount = pf_amount d,
                       p_dueDate = pf_dueDate d, p_status = Pending, p_type = pf_type d\<rparr>
                     # payments st\<rparr>
   \<and> p_status (hd (payments (snd (addPayment now d st)))) = Pending
   \<and> tl (payments (snd (addPayment now d st))) = payments st
   \<and> (paymentSchema v = Inr d \<longrightarrow>
        step st (SubmitPayment now v) = Inr (addPayment now d st)
        \<and> payments (exec st (SubmitPayment now v)) =
            \<lparr>p_id = toString now, p_name = pf_name d, p_amount = pf_amount d,
             p_dueDate = pf_dueDate d, p_status = Pending, p_type = pf_type d\<rparr>
            # payments st)"
  by (simp add: addPayment_def handleSubmit_def exec_SubmitPayment)

lemma paymentSchema_example:
  "paymentSchema \<lparr>pv_name = Some ''rent'', pv_amount = Num 30000,
      pv_dueDate = Some (newDate 2025 3 1), pv_type = Some ''recurring''\<rparr>
   = Inr \<lparr>pf_name = ''rent'', pf_amount = 30000, pf_dueDate = newDate 2025 3 1,
          pf_type = Recurring\<rparr>"
  by (simp add: paymentSchema_def stringMin1_def numberMin1_def zDate_def enumPaymentType_def)

text \<open>
  C8, on an instance: a rent payment submitted on the initial state is stored first, as
  pending.
\<close>

theorem addPayment_forces_pending_witness:
  "payments (exec initialStore (SubmitPayment 1738000000000
      \<lparr>pv_name = Some ''rent'', pv_amount = Num 30000,
       pv_dueDate = Some (newDate 2025 3 1), pv_type = Some ''recurring''\<rparr>)) =
     \<lparr>p_id = toString 1738000000000, p_name = ''rent'', p_amount = 30000,
      p_dueDate = newDate 2025 3 1, p_status = Pending, p_type = Recurring\<rparr>
     # payments initialStore"
  using addPayment_forces_pending [of 1738000000000
      "\<lparr>pf_name = ''rent'', pf_amount = 30000, pf_dueDate = newDate 2025 3 1,
        pf_type = Recurring\<rparr>" initialStore
      "\<lparr>pv_name = Some ''rent'', pv_amount = Num 30000,
       pv_dueDate = Some (newDate 2025 3 1), pv_type = Some ''recurring''\<rparr>"]
    paymentSchema_example
  by simp

section \<open>Marking a payment as paid\<close>

lemma markPaid_payments:
  "payments (snd (markPaymentAsPaid pid st)) =
     map (\<lambda>payment. if p_id payment = pid then payment\<lparr>p_status := Paid\<rparr> else payment)
         (payments st)"
  by (simp add: markPaymentAsPaid_def)

text \<open>
  C10. Marking a payment id as paid keeps the number and the order of the payments,
  leaves every payment with another id as it is, changes nothing but the status (now
  paid) of a payment with that id, and leaves the transactions and the shifts alone.
  Doing it twice is the same as doing it once, and when the payments with that id are
  already paid the state does not change at all.
\<close>

theorem markPaymentAsPaid_frame:
  "length (payments (snd (markPaymentAsPaid pid st))) = length (payments st)
   \<and> (\<forall>i < length (payments st).
        (p_id (payments st ! i) \<noteq> pid \<longrightarrow>
           payments (snd (markPaymentAsPaid pid st)) ! i = payments st ! i)
        \<and> (p_id (payments st ! i) = pid \<longrightarrow>
           payments (snd (markPaymentAsPaid pid st)) ! i = (payments st ! i)\<lparr>p_status := Paid\<rparr>))
   \<and> transactions (snd (markPaymentAsPaid pid st)) = transactions st
   \<and> shifts (snd (markPaymentAsPaid pid st)) = shifts st
   \<and> markPaymentAsPaid pid (snd (markPaymentAsPaid pid st)) = markPaymentAsPaid pid st
   \<and> ((\<forall>p \<in> set (payments st). p_id p = pid \<longrightarrow> p_status p = Paid) \<longrightarrow>
        snd (markPaymentAsPaid pid st) = st)"
proof -
  let ?f = "\<lambda>payment. if p_id payment = pid then payment\<lparr>p_status := Paid\<rparr> else payment"
  have idem: "map ?f (map ?f ps) = map ?f ps" for ps
    by (induction ps) simp_all
  have twice: "markPaymentAsPaid pid (snd (markPaymentAsPaid pid st)) = markPaymentAsPaid pid st"
    by (simp add: markPaymentAsPaid_def idem)
  have unchanged: "snd (markPaymentAsPaid pid st) = st"
    if "\<forall>p \<in> set (payments st). p_id p = pid \<longrightarrow> p_status p = Paid"
  proof -
    have "map ?f (payments st) = payments st"
      using that by (intro map_idI) auto
    then show ?thesis by (simp add: markPaymentAsPaid_def)
  qed
  show ?thesis
    using twice unchanged by (simp add: markPaid_payments) (simp add: markPaymentAsPaid_def)
qed

text \<open>
  C10, on the initial state: payment 4 is already paid, so marking it changes nothing;
  marking payment 1 sets the status of the first payment and keeps the second.
\<close>

theorem markPaymentAsPaid_frame_witness:
  "snd (markPaymentAsPaid ''4'' initialStore) = initialStore
   \<and> payments (snd (markPaymentAsPaid ''1'' initialStore)) ! 0
       = (payments initialStore ! 0)\<lparr>p_status := Paid\<rparr>
   \<and> payments (snd (markPaymentAsPaid ''1'' initialStore)) ! 1 = payments initialStore ! 1"
proof -
  have paid4: "\<forall>p \<in> set (payments initialStore). p_id p = ''4'' \<longrightarrow> p_status p = Paid"
    by (simp add: initialStore_def)
  have len: "0 < length (payments initialStore)" "1 < length (payments initialStore)"
    by (simp_all add: initialStore_def)
  have ids: "p_id (payments initialStore ! 0) = ''1''" "p_id (payments initialStore ! 1) \<noteq> ''1''"
    by (simp_all add: initialStore_def)
  show ?thesis
    using markPaymentAsPaid_frame [of "''4''" initialStore]
      markPaymentAsPaid_frame [of "''1''" initialStore] paid4 len ids
    by blast
qed

text \<open>
  C7, as the component behaves. Marking an id that no payment carries is not an error:
  the handler reports success (its toast) and the state, with all three collections, is
  exactly what it was.
\<close>

theorem markPaymentAsPaid_absent_id:
  "pid \<notin> p_id ` set (payments st) \<Longrightarrow>
     step st (MarkPaid pid) = Inr (PaymentMarkedPaid, st)"
proof -
  assume absent: "pid \<notin> p_id ` set (payments st)"
  have "map (\<lambda>payment. if p_id payment = pid then payment\<lparr>p_status := Paid\<rparr> else payment)
          (payments st) = payments st"
    using absent by (intro map_idI) auto
  then show ?thesis
    by (simp add: markPaymentAsPaid_def)
qed

text \<open>
  C7, on the initial state with the id 99, which no payment carries.
\<close>

theorem markPaymentAsPaid_absent_id_witness:
  "step initialStore (MarkPaid ''99'') = Inr (PaymentMarkedPaid, initialStore)"
proof -
  have "''99'' \<notin> p_id ` set (payments initialStore)"
    by (simp add: initialStore_def)
  then show ?thesis
    by (rule markPaymentAsPaid_absent_id)
qed

text \<open>
  C7 as stated fails: on the initial state the id 99 is absent from the payments, and
  marking it paid succeeds instead of failing with a not-found error.
\<close>

theorem markPaymentAsPaid_absent_id_succeeds:
  "''99'' \<notin> set (map p_id (payments initialStore))
   \<and> step initialStore (MarkPaid ''99'') = Inr (PaymentMarkedPaid, initialStore)
   \<and> step initialStore (MarkPaid ''99'') \<noteq> Inl NotFoundError"
  by (simp add: markPaymentAsPaid_def initialStore_def)

section \<open>Paid payments stay paid\<close>

text \<open>
  The part of C6 that the component can express. Count the payments from the oldest (the
  end of the list). Whatever events follow, a payment that is paid stays where it is,
  unchanged, so it is never pending or overdue again. The request of C6 to move a paid
  payment to pending has no counterpart: no handler takes a target status, no event
  fails with an invalid-transition error (the only failures are validation errors), and
  marking a payment as paid always succeeds. This holds from every state, in particular
  from every state reached from the initial one.
\<close>

theorem paid_stays_paid:
  "(\<forall>i < length (payments st). p_status (rev (payments st) ! i) = Paid \<longrightarrow>
       i < length (payments (run st es))
       \<and> rev (payments (run st es)) ! i = rev (payments st) ! i)
   \<and> step st e \<noteq> Inl InvalidTransitionError
   \<and> step st (MarkPaid pid) = Inr (markPaymentAsPaid pid st)"
proof -
  obtain new f where ev: "payments (run st es) = new @ map f (payments st)"
    and fixed: "\<forall>p. p_status p = Paid \<longrightarrow> f p = p"
    using run_payments_evolve by blast
  have "i < length (payments (run st es))
       \<and> rev (payments (run st es)) ! i = rev (payments st) ! i"
    if i: "i < length (payments st)" and paid: "p_status (rev (payments st) ! i) = Paid" for i
  proof -
    have "rev (payments (run st es)) ! i = (rev (map f (payments st)) @ rev new) ! i"
      by (simp add: ev)
    also have "\<dots> = rev (map f (payments st)) ! i"
      using i by (simp add: nth_append)
    also have "\<dots> = f (rev (payments st) ! i)"
      using i by (simp add: rev_map)
    also have "\<dots> = rev (payments st) ! i"
      using fixed paid by simp
    finally show ?thesis using i by (simp add: ev)
  qed
  moreover have "step st e \<noteq> Inl InvalidTransitionError"
    using step_errors [of st e InvalidTransitionError] by auto
  ultimately show ?thesis by simp
qed

text \<open>
  On the initial state: its oldest payment (id 4) is paid, and it is still paid after a
  new payment is stored under the same id 4 and payments 4 and 1 are marked.
\<close>

theorem paid_stays_paid_witness:
  "p_status (rev (payments (run initialStore
        [SubmitPayment 4
           \<lparr>pv_name = Some ''rent'', pv_amount = Num 30000,
            pv_dueDate = Some (newDate 2025 3 1), pv_type = Some ''recurring''\<rparr>,
         MarkPaid ''4'', MarkPaid ''1''])) ! 0) = Paid"
proof -
  have seed: "0 < length (payments initialStore)"
    "rev (payments initialStore) ! 0 =
       \<lparr>p_id = ''4'', p_name = ''Mobilnaya svyaz'', p_amount = 800,
        p_dueDate = newDate 2025 2 3, p_status = Paid, p_type = Recurring\<rparr>"
    by (simp_all add: initialStore_def)
  then have "p_status (rev (payments initialStore) ! 0) = Paid"
    by simp
  with seed show ?thesis
    using paid_stays_paid [of initialStore
        "[SubmitPayment 4
           \<lparr>pv_name = Some ''rent'', pv_amount = Num 30000,
            pv_dueDate = Some (newDate 2025 3 1), pv_type = Some ''recurring''\<rparr>,
         MarkPaid ''4'', MarkPaid ''1'']"]
    by simp
qed

section \<open>Ids of stored records\<close>

lemma clockReadings_Cons: "clockReadings (e # es) = clockReadings [e] @ clockReadings es"
  by (cases e) simp_all

lemma exec_transaction_ids:
  "map t_id (transactions (exec st e)) = map t_id (transactions st)
   \<or> (\<exists>now. clockReadings [e] = [now]
        \<and> map t_id (transactions (exec st e)) = toString now # map t_id (transactions st))"
  by (cases e) (auto simp: exec_simps split: sum.splits)

lemma exec_shift_ids:
  "map s_id (shifts (exec st e)) = map s_id (shifts st)
   \<or> (\<exists>now. clockReadings [e] = [now]
        \<and> map s_id (shifts (exec st e)) = toString now # map s_id (shifts st))"
  by (cases e) (auto simp: exec_simps split: sum.splits)

lemma exec_payment_ids:
  "map p_id (payments (exec st e)) = map p_id (payments st)
   \<or> (\<exists>now. clockReadings [e] = [now]
        \<and> map p_id (payments (exec st e)) = toString now # map p_id (payments st))"
  by (cases e) (auto simp: exec_simps comp_def split: sum.splits)

lemma run_ids_distinct:
  assumes stepwise: "\<And>st e. ids (exec st e) = ids st
      \<or> (\<exists>now. clockReadings [e] = [now] \<and> ids (exec st e) = toString now # ids st)"
    and "distinct (ids st)"
    and "distinct (clockReadings es)"
    and "\<forall>n \<in> set (clockReadings es). toString n \<notin> set (ids st)"
  shows "distinct (ids (run st es))
    \<and> set (ids (run st es)) \<subseteq> set (ids st) \<union> toString ` set (clockReadings es)"
  using assms(2-4)
proof (induction es arbitrary: st)
  case Nil
  then show ?case by (simp add: run_Nil)
next
  case (Cons e es)
  have split: "clockReadings (e # es) = clockReadings [e] @ clockReadings es"
    by (rule clockReadings_Cons)
  have later: "distinct (clockReadings es)"
    using Cons.prems(2) split by simp
  consider (same) "ids (exec st e) = ids st"
    | (added) now where "clockReadings [e] = [now]" "ids (exec st e) = toString now # ids st"
    using stepwise [of st e] by blast
  then show ?case
  proof cases
    case same
    have "distinct (ids (run (exec st e) es))
      \<and> set (ids (run (exec st e) es)) \<subseteq> set (ids (exec st e)) \<union> toString ` set (clockReadings es)"
      using Cons.prems split later by (intro Cons.IH) (simp_all add: same)
    then show ?thesis
      using split by (auto simp: run_Cons same)
  next
    case added
    have now_new: "now \<notin> set (clockReadings es)"
      using Cons.prems(2) split added(1) by simp
    have fresh: "toString now \<notin> set (ids st)"
      using Cons.prems(3) split added(1) by simp
    have "\<forall>n \<in> set (clockReadings es). toString n \<notin> set (ids (exec st e))"
    proof
      fix n assume n: "n \<in> set (clockReadings es)"
      then have "n \<noteq> now" using now_new by blast
      then have "toString n \<noteq> toString now" using toString_inj by blast
      moreover have "toString n \<notin> set (ids st)"
        using Cons.prems(3) split n by simp
      ultimately show "toString n \<notin> set (ids (exec st e))"
        by (simp add: added(2))
    qed
    moreover have "distinct (ids (exec st e))"
      using Cons.prems(1) fresh by (simp add: added(2))
    ultimately have "distinct (ids (run (exec st e) es))
      \<and> set (ids (run (exec st e) es)) \<subseteq> set (ids (exec st e)) \<union> toString ` set (clockReadings es)"
      using later by (intro Cons.IH)
    then show ?thesis
      using split added by (auto simp: run_Cons)
  qed
qed

lemma seed_ids:
  "map t_id (transactions initialStore) = map toString [1, 2, 3, 4]"
  "map s_id (shifts initialStore) = map toString [1, 2, 3, 4]"
  "map p_id (payments initialStore) = map toString [1, 2, 3, 4]"
  by code_simp+

lemma toString_eq_iff: "toString a = toString b \<longleftrightarrow> a = b"
  using toString_inj by blast

text \<open>
  C9, as the component behaves. The id of a stored record is the decimal numeral of the
  clock reading at which it was added. In a run from the initial state whose clock
  readings are pairwise different and none of 1, 2, 3, 4 (the numerals of the initial
  ids), the ids within each collection are pairwise distinct: each new record got an id
  that no record of its collection had.
\<close>

theorem ids_distinct_when_clock_fresh:
  assumes "distinct (clockReadings es)"
    and "\<forall>n \<in> set (clockReadings es). n \<notin> {1, 2, 3, 4}"
  shows "distinct (map t_id (transactions (run initialStore es)))
    \<and> distinct (map s_id (shifts (run initialStore es)))
    \<and> distinct (map p_id (payments (run initialStore es)))"
proof -
  have seed_distinct: "distinct (map toString [1, 2, 3, 4])"
    by (simp add: toString_eq_iff)
  have fresh: "\<forall>n \<in> set (clockReadings es). toString n \<notin> set (map toString [1, 2, 3, 4])"
    using assms(2) by (auto simp: toString_eq_iff)
  have "distinct (map t_id (transactions (run initialStore es)))"
    using run_ids_distinct [where ids = "\<lambda>s. map t_id (transactions s)", OF exec_transaction_ids,
        of initialStore es] assms(1) seed_distinct fresh
    by (simp add: seed_ids)
  moreover have "distinct (map s_id (shifts (run initialStore es)))"
    using run_ids_distinct [where ids = "\<lambda>s. map s_id (shifts s)", OF exec_shift_ids,
        of initialStore es] assms(1) seed_distinct fresh
    by (simp add: seed_ids)
  moreover have "distinct (map p_id (payments (run initialStore es)))"
    using run_ids_distinct [where ids = "\<lambda>s. map p_id (payments s)", OF exec_payment_ids,
        of initialStore es] assms(1) seed_distinct fresh
    by (simp add: seed_ids)
  ultimately show ?thesis by simp
qed

text \<open>
  C9, on a run with two payments added one millisecond apart.
\<close>

theorem ids_distinct_when_clock_fresh_witness:
  "distinct (map p_id (payments (run initialStore
        [SubmitPayment 1738000000000
           \<lparr>pv_name = Some ''rent'', pv_amount = Num 30000,
            pv_dueDate = Some (newDate 2025 3 1), pv_type = Some ''recurring''\<rparr>,
         MarkPaid ''1'',
         SubmitPayment 1738000000001
           \<lparr>pv_name = Some ''loan'', pv_amount = Num 5000,
            pv_dueDate = Some (newDate 2025 3 5), pv_type = Some ''credit''\<rparr>])))"
  using ids_distinct_when_clock_fresh [of
        "[SubmitPayment 1738000000000
           \<lparr>pv_name = Some ''rent'', pv_amount = Num 30000,
            pv_dueDate = Some (newDate 2025 3 1), pv_type = Some ''recurring''\<rparr>,
         MarkPaid ''1'',
         SubmitPayment 1738000000001
           \<lparr>pv_name = Some ''loan'', pv_amount = Num 5000,
            pv_dueDate = Some (newDate 2025 3 5), pv_type = Some ''credit''\<rparr>]"]
  by simp

text \<open>
  C9 as stated fails: two payments added at the same clock reading get the same id.
\<close>

theorem ids_repeat_when_clock_repeats:
  "\<not> distinct (map p_id (payments (run initialStore
        [SubmitPayment 1738000000000
           \<lparr>pv_name = Some ''rent'', pv_amount = Num 30000,
            pv_dueDate = Some (newDate 2025 3 1), pv_type = Some ''recurring''\<rparr>,
         SubmitPayment 1738000000000
           \<lparr>pv_name = Some ''loan'', pv_amount = Num 5000,
            pv_dueDate = Some (newDate 2025 3 5), pv_type = Some ''credit''\<rparr>])))"
  by (simp add: run_def exec_SubmitPayment paymentSchema_def stringMin1_def numberMin1_def
        zDate_def enumPaymentType_def)

end
